theory Spec2Isabelle
  imports Main "HOL-Library.AList"
begin

section \<open>Data model (lg\_app/services/schemas.py)\<close>

text \<open>
  The pydantic models become records. Every field the source declares as \<open>str\<close> stays a
  \<open>string\<close>: the validators of \<open>Player\<close> and \<open>Game\<close> run when a record is built or
  loaded, not when a field is assigned, so the engine compares and stores plain strings.
  Wall-clock fields (\<open>created_at\<close>, the \<open>timestamp\<close> of events and chat messages) are
  left out. A chat message is the pair of its role and its content.
\<close>

record PotionState =
  heal_used :: bool
  poison_used :: bool

record Player =
  id' :: string
  name :: string
  role :: string
  status :: string

record Event =
  type' :: string
  payload :: "(string \<times> string) list"

type_synonym ChatMessage = "string \<times> string"

record Game =
  code :: string
  phase :: string
  players :: "Player list"
  history :: "Event list"
  last_killed :: "string option"
  potions :: PotionState
  chat_history :: "ChatMessage list"

text \<open>Python truthiness of an \<open>Optional[str]\<close>: \<open>None\<close> and the empty string are false.\<close>

fun truthy :: "string option \<Rightarrow> bool" where
  "truthy None = False"
| "truthy (Some s) = (s \<noteq> [])"

text \<open>The string an \<open>Optional[str]\<close> holds, read where the source has tested it.\<close>

fun the_str :: "string option \<Rightarrow> string" where
  "the_str None = []"
| "the_str (Some s) = s"

section \<open>Role quotas (lg\_app/services/roles.py)\<close>

abbreviation ROLE_SEER :: string where "ROLE_SEER \<equiv> ''seer''"
abbreviation ROLE_WITCH :: string where "ROLE_WITCH \<equiv> ''witch''"
abbreviation ROLE_WOLF :: string where "ROLE_WOLF \<equiv> ''wolf''"
abbreviation ROLE_VILLAGER :: string where "ROLE_VILLAGER \<equiv> ''villager''"

text \<open>
  The \<open>ValueError\<close>s of the repository, told apart by their message: the two of
  \<open>role_distribution\<close>, and the one of the store.
\<close>

datatype value_error =
    InsufficientPlayers    \<comment> \<open>"Au moins 5 joueurs sont requis pour lancer une partie."\<close>
  | DistributionImpossible \<comment> \<open>"Le nombre de joueurs est insuffisant pour la distribution demandee."\<close>
  | GameCodeExists         \<comment> \<open>db.create\_game: "Un salon avec ce code existe deja."\<close>

definition wolf_count :: "int \<Rightarrow> int" where
  "wolf_count player_count =
     (if player_count \<le> 6 then 1 else if player_count \<le> 9 then 2 else 3)"

text \<open>
  The dictionary is an association list in insertion order (the order in which
  \<open>assign_roles\<close> later fills the bag); \<open>AList.update\<close> overwrites a present key in
  place and appends a new one, as a Python \<open>dict\<close> does.
\<close>

definition role_distribution :: "int \<Rightarrow> value_error + (string \<times> int) list" where
  "role_distribution player_count =
     (if player_count < 5 then Inl InsufficientPlayers
      else
        let distribution0 = [(ROLE_SEER, 1), (ROLE_WITCH, 0), (ROLE_WOLF, wolf_count player_count)];
            distribution = (if player_count \<ge> 6 then AList.update ROLE_WITCH 1 distribution0
                            else distribution0);
            villagers = player_count - sum_list (map snd distribution)
        in if villagers < 0 then Inl DistributionImpossible
           else Inr (AList.update ROLE_VILLAGER villagers distribution))"

section \<open>Shared helpers (lg\_app/services/utils.py)\<close>

definition alive_players :: "Player list \<Rightarrow> Player list" where
  "alive_players ps = filter (\<lambda>player. status player = ''alive'') ps"

definition count_role :: "Player list \<Rightarrow> string \<Rightarrow> nat" where
  "count_role ps r = length (filter (\<lambda>player. role player = r) ps)"

definition count_wolves :: "Player list \<Rightarrow> nat" where
  "count_wolves ps = count_role ps ''wolf''"

section \<open>The state machine (lg\_app/services/game\_engine.py)\<close>

text \<open>
  \<open>GameStateError\<close> is one exception class; its instances differ by message, and each
  message is raised at one place. The constructors name those places.
\<close>

datatype game_state_error =
    NotLobby           \<comment> \<open>assign\_roles outside \<open>lobby\<close>\<close>
  | NotFound           \<comment> \<open>\_get\_player: "Joueur introuvable."\<close>
  | NotAlive           \<comment> \<open>\_ensure\_alive: "Cette action necessite un joueur vivant."\<close>
  | NotSeerTurn        \<comment> \<open>seer\_peek outside \<open>night_seer\<close>\<close>
  | NotWolvesTurn      \<comment> \<open>wolves\_vote outside \<open>night_wolves\<close>\<close>
  | NotWitchTurn       \<comment> \<open>witch\_action outside \<open>night_witch\<close>\<close>
  | HealAlreadyUsed    \<comment> \<open>"La potion de soin a deja ete utilisee."\<close>
  | NoPendingVictim    \<comment> \<open>"Aucun joueur a sauver."\<close>
  | PoisonAlreadyUsed  \<comment> \<open>"La potion de poison a deja ete utilisee."\<close>
  | DuplicateTarget    \<comment> \<open>"Impossible d'empoisonner un joueur deja cible."\<close>
  | NotDay             \<comment> \<open>start\_next\_night outside \<open>day\<close>\<close>

text \<open>\<open>_get_player\<close> returns the first player with the id, or raises.\<close>

fun get_player :: "Player list \<Rightarrow> string \<Rightarrow> Player option" where
  "get_player [] player_id = None"
| "get_player (player # rest) player_id =
     (if id' player = player_id then Some player else get_player rest player_id)"

text \<open>
  \<open>_get_player(game, i).status = s\<close> writes through the reference that the lookup
  returned: the first player with the id changes, in place in the list.
\<close>

fun set_status :: "Player list \<Rightarrow> string \<Rightarrow> string \<Rightarrow> Player list" where
  "set_status [] player_id s = []"
| "set_status (player # rest) player_id s =
     (if id' player = player_id then player\<lparr>status := s\<rparr> # rest
      else player # set_status rest player_id s)"

text \<open>
  An engine operation mutates the \<open>Game\<close> it is given and either returns or raises. The
  model returns the outcome together with the game as the call leaves it, so that what a
  raising call has already written stays visible.
\<close>

type_synonym 'a outcome = "(game_state_error + 'a) \<times> Game"

definition seer_peek :: "Game \<Rightarrow> string \<Rightarrow> string outcome" where
  "seer_peek game target_player_id =
     (if phase game \<noteq> ''night_seer'' then (Inl NotSeerTurn, game)
      else case get_player (players game) target_player_id of
        None \<Rightarrow> (Inl NotFound, game)
      | Some target \<Rightarrow>
          if status target \<noteq> ''alive'' then (Inl NotAlive, game)
          else (Inr (role target), game\<lparr>phase := ''night_wolves''\<rparr>))"

definition wolves_vote :: "Game \<Rightarrow> string \<Rightarrow> string outcome" where
  "wolves_vote game target_player_id =
     (if phase game \<noteq> ''night_wolves'' then (Inl NotWolvesTurn, game)
      else case get_player (players game) target_player_id of
        None \<Rightarrow> (Inl NotFound, game)
      | Some target \<Rightarrow>
          if status target \<noteq> ''alive'' then (Inl NotAlive, game)
          else (Inr (id' target),
                game\<lparr>last_killed := Some (id' target), phase := ''night_witch''\<rparr>))"

text \<open>
  The statement pair \<open>if x: victim = _get_player(game, x); victim.status = "dead"\<close>,
  which \<open>witch_action\<close> runs twice (lines 87 to 89 and 91 to 93).
\<close>

definition mark_dead :: "Game \<Rightarrow> string option \<Rightarrow> game_state_error + Game" where
  "mark_dead game x =
     (case x of
        None \<Rightarrow> Inr game
      | Some k \<Rightarrow>
          if k = [] then Inr game
          else (case get_player (players game) k of
                  None \<Rightarrow> Inl NotFound
                | Some victim \<Rightarrow> Inr (game\<lparr>players := set_status (players game) k ''dead''\<rparr>)))"

text \<open>
  \<open>witch_action\<close>, lines 87 to 96: the tail every path without a raise runs through.
  \<open>killed_id\<close> is the local variable, \<open>game\<close> the game as the heal and poison blocks
  left it.
\<close>

definition witch_finish :: "Game \<Rightarrow> string option \<Rightarrow> string option outcome" where
  "witch_finish game killed_id =
     (case mark_dead game killed_id of
        Inl e \<Rightarrow> (Inl e, game)
      | Inr game1 \<Rightarrow>
          (case mark_dead game1 (last_killed game1) of
             Inl e \<Rightarrow> (Inl e, game1)
           | Inr game2 \<Rightarrow> (Inr killed_id, game2\<lparr>last_killed := None, phase := ''day''\<rparr>)))"

text \<open>\<open>witch_action\<close>, lines 76 to 85: the poison block, then the tail.\<close>

definition witch_poison :: "Game \<Rightarrow> string option \<Rightarrow> string option \<Rightarrow> string option outcome" where
  "witch_poison game killed_id poison_target_id =
     (case poison_target_id of
        None \<Rightarrow> witch_finish game killed_id
      | Some t \<Rightarrow>
          if t = [] then witch_finish game killed_id
          else if poison_used (potions game) then (Inl PoisonAlreadyUsed, game)
          else (case get_player (players game) t of
                  None \<Rightarrow> (Inl NotFound, game)
                | Some target \<Rightarrow>
                    if status target \<noteq> ''alive'' then (Inl NotAlive, game)
                    else if poison_target_id = killed_id then (Inl DuplicateTarget, game)
                    else witch_finish
                           (game\<lparr>players := set_status (players game) t ''dead'',
                                 potions := (potions game)\<lparr>poison_used := True\<rparr>\<rparr>)
                           poison_target_id))"

text \<open>\<open>witch_action\<close>, lines 62 to 74: the phase check and the heal block, then the rest.\<close>

definition witch_action :: "Game \<Rightarrow> bool \<Rightarrow> string option \<Rightarrow> string option outcome" where
  "witch_action game heal poison_target_id =
     (if phase game \<noteq> ''night_witch'' then (Inl NotWitchTurn, game)
      else if heal then
        (if heal_used (potions game) then (Inl HealAlreadyUsed, game)
         else if \<not> truthy (last_killed game) then (Inl NoPendingVictim, game)
         else witch_poison
                (game\<lparr>last_killed := None, potions := (potions game)\<lparr>heal_used := True\<rparr>\<rparr>)
                None poison_target_id)
      else witch_poison game (last_killed game) poison_target_id)"

definition start_next_night :: "Game \<Rightarrow> unit outcome" where
  "start_next_night game =
     (if phase game \<noteq> ''day'' then (Inl NotDay, game)
      else (Inr (), game\<lparr>phase := ''night_seer''\<rparr>))"

text \<open>
  \<open>is_game_over\<close> builds two fresh lists from the players and returns a pair; it assigns
  to nothing, so the model has no game to return.
\<close>

definition is_game_over :: "Game \<Rightarrow> bool \<times> string option" where
  "is_game_over game =
     (let alive = alive_players (players game);
          wolves = filter (\<lambda>player. role player = ROLE_WOLF) alive;
          villagers = filter (\<lambda>player. role player \<noteq> ROLE_WOLF) alive
      in if wolves = [] then (True, Some ''village'')
         else if length wolves \<ge> length villagers then (True, Some ''wolves'')
         else (False, None))"

definition living_roles_summary :: "Game \<Rightarrow> (string \<times> int) list" where
  "living_roles_summary game =
     (let wolves = int (count_wolves (alive_players (players game)))
      in [(''wolves'', wolves),
          (''villagers'', int (length (alive_players (players game))) - wolves)])"

section \<open>Role assignment (roles.py and game\_engine.py)\<close>

text \<open>
  \<open>AgentToolError\<close> (agent\_runtime.py) is again one class with many messages; each
  constructor is one \<open>raise\<close> of the dispatcher, and \<open>Engine\<close> wraps the message of a
  caught \<open>GameStateError\<close>.
\<close>

datatype agent_tool_error =
    NoActiveGame           \<comment> \<open>\_ensure\_game\<close>
  | InvalidCode            \<comment> \<open>tool\_create\_game: the code given is not valid\<close>
  | InvalidJoinCode        \<comment> \<open>tool\_join\_game: the code given is not valid\<close>
  | NoSuchGame             \<comment> \<open>tool\_join\_game: no game with this code\<close>
  | NameMissing            \<comment> \<open>tool\_add\_player: empty name\<close>
  | RemoveNameMissing      \<comment> \<open>tool\_remove\_player: empty name\<close>
  | AlreadyRegistered      \<comment> \<open>tool\_add\_player\<close>
  | NotRegistered          \<comment> \<open>tool\_remove\_player\<close>
  | NeedFivePlayers        \<comment> \<open>tool\_assign\_roles\<close>
  | RolesNotAssigned       \<comment> \<open>tool\_seer\_peek in \<open>lobby\<close>\<close>
  | SeerOnlyAtNight        \<comment> \<open>tool\_seer\_peek in \<open>day\<close>\<close>
  | NotSeerPhase           \<comment> \<open>tool\_seer\_peek in any other phase\<close>
  | InvalidPlayer          \<comment> \<open>tool\_seer\_peek, tool\_witch\_action: no player of this name\<close>
  | SeerHasNotPlayed       \<comment> \<open>tool\_wolves\_vote in \<open>night_seer\<close> with a living seer\<close>
  | SeerMustPlayFirst      \<comment> \<open>tool\_witch\_action in \<open>night_seer\<close>\<close>
  | NotWolvesPhase         \<comment> \<open>tool\_wolves\_vote outside the night's first two phases\<close>
  | TargetNotFound         \<comment> \<open>tool\_wolves\_vote: no player of this name\<close>
  | TargetAlreadyDead      \<comment> \<open>tool\_wolves\_vote\<close>
  | WolvesMustAttackFirst  \<comment> \<open>tool\_witch\_action in \<open>night_wolves\<close> with a living wolf\<close>
  | NotWitchPhase          \<comment> \<open>tool\_witch\_action outside the night\<close>
  | NightNotOver           \<comment> \<open>tool\_advance\_to\_day outside \<open>night_witch\<close>\<close>
  | NotNightPhase          \<comment> \<open>tool\_run\_night\_sequence outside the night\<close>
  | Engine game_state_error

text \<open>
  The exceptions a tool can end with. Only \<open>AgentToolError\<close> is caught at the tool
  boundary; the others leave the request. \<open>ValidationError\<close> is pydantic's, raised when
  \<open>Player\<close> refuses a name; \<open>AttributeError\<close> is a field read on \<open>None\<close>.
\<close>

datatype exn =
    AgentToolError agent_tool_error
  | GameStateError game_state_error
  | ValueError value_error
  | ValidationError
  | IndexError
  | KeyError
  | AttributeError

text \<open>
  \<open>random.Random(seed).shuffle\<close> is not part of the repository. The two shuffles of
  \<open>roles.assign_roles\<close> (the ids, then the bag) are parameters: any two functions on
  lists, which covers every seed and the unseeded generator. Where a function that is not
  a permutation would make the source read a missing index or key, the model raises what
  Python raises.
\<close>

type_synonym shuffle = "string list \<Rightarrow> string list"

definition roles_assign :: "shuffle \<Rightarrow> shuffle \<Rightarrow> string list \<Rightarrow> exn + (string \<times> string) list" where
  "roles_assign shuffle_ids shuffle_bag player_ids =
     (case role_distribution (int (length player_ids)) of
        Inl e \<Rightarrow> Inl (ValueError e)
      | Inr distribution \<Rightarrow>
          let bag = concat (map (\<lambda>(r, amount). replicate (nat amount) r) distribution);
              ids = shuffle_ids player_ids;
              bag' = shuffle_bag bag
          in if length bag' < length ids then Inl IndexError
             else Inr (fold (\<lambda>(player_id, r). AList.update player_id r) (zip ids bag') []))"

text \<open>
  The loop of \<open>game_engine.assign_roles\<close> over the players. It stops at the first
  player whose id is not a key of the assignment (\<open>KeyError\<close>); the players before it
  have been written.
\<close>

fun assign_loop :: "(string \<times> string) list \<Rightarrow> Player list \<Rightarrow> bool \<times> Player list" where
  "assign_loop assignments [] = (True, [])"
| "assign_loop assignments (player # rest) =
     (case map_of assignments (id' player) of
        None \<Rightarrow> (False, player # rest)
      | Some r \<Rightarrow>
          (case assign_loop assignments rest of
             (done, rest') \<Rightarrow> (done, player\<lparr>role := r, status := ''alive''\<rparr> # rest')))"

definition assign_roles ::
  "shuffle \<Rightarrow> shuffle \<Rightarrow> Game \<Rightarrow> (exn + (string \<times> string) list) \<times> Game" where
  "assign_roles shuffle_ids shuffle_bag g =
     (if phase g \<noteq> ''lobby'' then (Inl (GameStateError NotLobby), g)
      else case roles_assign shuffle_ids shuffle_bag (map id' (players g)) of
        Inl e \<Rightarrow> (Inl e, g)
      | Inr assignments \<Rightarrow>
          (case assign_loop assignments (players g) of
             (False, ps) \<Rightarrow> (Inl KeyError, g\<lparr>players := ps\<rparr>)
           | (True, ps) \<Rightarrow> (Inr assignments, g\<lparr>players := ps, phase := ''night_seer''\<rparr>)))"

section \<open>Text helpers (utils.py)\<close>

text \<open>
  Names and codes are modelled as ASCII text. \<open>str.strip\<close>, \<open>str.upper\<close> and
  \<open>str.lower\<close> are Python's, not the repository's; on ASCII text they are the three
  functions below (\<open>strip\<close> removes the ASCII white space, \<open>upper\<close> and \<open>lower\<close> map
  the 26 letters). On other text Python does more (it strips Unicode white space and maps
  the case of letters outside ASCII), which these functions do not follow. The examples
  run below use ASCII names and codes only, and no proof about the histories of the
  dispatcher uses what the three functions return.
\<close>

definition is_space :: "char \<Rightarrow> bool" where
  "is_space c = (c \<in> set [CHR '' '', CHR 0x09, CHR 0x0A, CHR 0x0B, CHR 0x0C, CHR 0x0D,
                           CHR 0x1C, CHR 0x1D, CHR 0x1E, CHR 0x1F])"

definition strip :: "string \<Rightarrow> string" where
  "strip s = rev (dropWhile is_space (rev (dropWhile is_space s)))"

definition ascii_uppercase :: string where
  "ascii_uppercase = ''ABCDEFGHIJKLMNOPQRSTUVWXYZ''"

definition ascii_lowercase :: string where
  "ascii_lowercase = ''abcdefghijklmnopqrstuvwxyz''"

definition digits :: string where
  "digits = ''0123456789''"

definition upper :: "string \<Rightarrow> string" where
  "upper s = map (\<lambda>c. case map_of (zip ascii_lowercase ascii_uppercase) c of
                         None \<Rightarrow> c | Some u \<Rightarrow> u) s"

definition lower :: "string \<Rightarrow> string" where
  "lower s = map (\<lambda>c. case map_of (zip ascii_uppercase ascii_lowercase) c of
                         None \<Rightarrow> c | Some l \<Rightarrow> l) s"

definition GAME_CODE_ALPHABET :: string where
  "GAME_CODE_ALPHABET = ascii_uppercase @ digits"

definition validate_game_code :: "string \<Rightarrow> bool" where
  "validate_game_code c =
     (length c = 6 \<and> list_all (\<lambda>ch. ch \<in> set GAME_CODE_ALPHABET) (upper c))"

fun find_player_by_name :: "Player list \<Rightarrow> string \<Rightarrow> Player option" where
  "find_player_by_name [] nm = None"
| "find_player_by_name (player # rest) nm =
     (if lower (strip (name player)) = lower (strip nm) then Some player
      else find_player_by_name rest nm)"

definition build_event :: "string \<Rightarrow> (string \<times> string) list \<Rightarrow> Event" where
  "build_event event_type p = \<lparr>type' = event_type, payload = p\<rparr>"

text \<open>\<open>str\<close> of a natural number, for the one payload that carries a count.\<close>

fun str_nat :: "nat \<Rightarrow> string" where
  "str_nat n =
     (if n < 10 then [digits ! n] else str_nat (n div 10) @ [digits ! (n mod 10)])"

section \<open>The store (db.py)\<close>

text \<open>
  The collection \<open>games\<close> has a unique index on \<open>code\<close>: it is a map from codes to
  documents. A document is the \<open>Game\<close> it was serialised from. The program itself writes
  every document, from validated models and from the constants of the engine, so loading
  one (\<open>Game.model_validate\<close>) gives it back as it is.
\<close>

type_synonym store = "string \<rightharpoonup> Game"

definition new_game :: "string \<Rightarrow> Game" where
  "new_game c =
     \<lparr>code = c, phase = ''lobby'', players = [], history = [], last_killed = None,
      potions = \<lparr>heal_used = False, poison_used = False\<rparr>, chat_history = []\<rparr>"

definition create_game :: "store \<Rightarrow> string \<Rightarrow> exn + (Game \<times> store)" where
  "create_game st c =
     (case st c of
        Some existing \<Rightarrow> Inl (ValueError GameCodeExists)
      | None \<Rightarrow> Inr (new_game c, st(c \<mapsto> new_game c)))"

definition get_game :: "store \<Rightarrow> string \<Rightarrow> Game option" where
  "get_game st c = st c"

definition upsert_game :: "store \<Rightarrow> Game \<Rightarrow> store" where
  "upsert_game st g = st(code g \<mapsto> g)"

text \<open>
  \<open>db.add_player\<close> builds the \<open>Player\<close> first: the validator of \<open>name\<close> strips it and
  refuses an empty name or one of more than 40 characters. \<open>uid\<close> is the value of
  \<open>str(uuid7())\<close>. The update touches no document when none has the code.
\<close>

definition add_player :: "store \<Rightarrow> string \<Rightarrow> string \<Rightarrow> string \<Rightarrow> exn + store" where
  "add_player st c nm uid =
     (if strip nm = [] \<or> length (strip nm) > 40 then Inl ValidationError
      else Inr (case st c of
                  None \<Rightarrow> st
                | Some d \<Rightarrow>
                    st(c \<mapsto> d\<lparr>players := players d @
                       [\<lparr>id' = uid, name = strip nm, role = ''villager'', status = ''alive''\<rparr>]\<rparr>)))"

definition remove_player :: "store \<Rightarrow> string \<Rightarrow> string \<Rightarrow> store" where
  "remove_player st c player_id =
     (case st c of
        None \<Rightarrow> st
      | Some d \<Rightarrow> st(c \<mapsto> d\<lparr>players := filter (\<lambda>p. id' p \<noteq> player_id) (players d)\<rparr>))"

definition set_phase :: "store \<Rightarrow> string \<Rightarrow> string \<Rightarrow> store" where
  "set_phase st c ph =
     (case st c of None \<Rightarrow> st | Some d \<Rightarrow> st(c \<mapsto> d\<lparr>phase := ph\<rparr>))"

definition log_event :: "store \<Rightarrow> string \<Rightarrow> Event \<Rightarrow> store" where
  "log_event st c ev =
     (case st c of None \<Rightarrow> st | Some d \<Rightarrow> st(c \<mapsto> d\<lparr>history := history d @ [ev]\<rparr>))"

section \<open>The dispatcher (agent\_runtime.py)\<close>

text \<open>
  \<open>AgentContext\<close> without its text fields (\<open>user_message\<close>, \<open>chat_history\<close>,
  \<open>executed\<close>), which no tool reads. \<open>errors\<close> keeps the errors the tool boundary
  recorded. The world a tool runs in is the store and the context of the request. A tool
  returns its reply text; the model returns \<open>()\<close> where the source returns, and the
  exception where it raises, each with the world as the call leaves it.
\<close>

record AgentContext =
  game_code :: "string option"
  game :: "Game option"
  errors :: "agent_tool_error list"

record world =
  db :: store
  ctx :: AgentContext

type_synonym tool_result = "(exn + unit) \<times> world"

definition reload_game :: "world \<Rightarrow> world" where
  "reload_game w =
     w\<lparr>ctx := (ctx w)\<lparr>game :=
         (case game_code (ctx w) of
            None \<Rightarrow> None
          | Some c \<Rightarrow> if c = [] then None else get_game (db w) c)\<rparr>\<rparr>"

text \<open>\<open>_ensure_game\<close>: \<open>None\<close> stands for its \<open>raise\<close>.\<close>

definition ensure_game :: "AgentContext \<Rightarrow> Game option" where
  "ensure_game c = (if \<not> truthy (game_code c) then None else game c)"

definition fail :: "agent_tool_error \<Rightarrow> world \<Rightarrow> tool_result" where
  "fail e w = (Inl (AgentToolError e), w)"

text \<open>
  The engine works on the object \<open>context.game\<close> itself: what it writes, also before a
  raise, is written to the context's game.
\<close>

definition set_game :: "world \<Rightarrow> Game \<Rightarrow> world" where
  "set_game w g = w\<lparr>ctx := (ctx w)\<lparr>game := Some g\<rparr>\<rparr>"

definition db_log :: "world \<Rightarrow> string \<Rightarrow> Event \<Rightarrow> world" where
  "db_log w c ev = w\<lparr>db := log_event (db w) c ev\<rparr>"

definition finalize_state :: "world \<Rightarrow> Game \<Rightarrow> world" where
  "finalize_state w g =
     (let (over, winner) = is_game_over g;
          ending = (over \<and> phase g \<noteq> ''ended'');
          g1 = (if ending then g\<lparr>phase := ''ended''\<rparr> else g);
          w1 = (if ending
                then db_log w (code g1)
                       (build_event ''game_over''
                          [(''winner'', if truthy winner then the_str winner else ''inconnu'')])
                else w);
          w2 = w1\<lparr>db := upsert_game (db w1) g1\<rparr>
      in reload_game (w2\<lparr>ctx := (ctx w2)\<lparr>game_code := Some (code g1), game := Some g1\<rparr>\<rparr>))"

definition tool_create_game :: "string option \<Rightarrow> string \<Rightarrow> world \<Rightarrow> tool_result" where
  "tool_create_game code_arg generated w =
     (if truthy code_arg \<and> \<not> validate_game_code (upper (strip (the_str code_arg)))
      then fail InvalidCode w
      else
        let generated_code = (if truthy code_arg then upper (strip (the_str code_arg))
                              else generated)
        in case create_game (db w) generated_code of
             Inl e \<Rightarrow> (Inl e, w)
           | Inr (g, st) \<Rightarrow>
               (Inr (),
                \<lparr>db = log_event st generated_code
                        (build_event ''game_created'' [(''code'', generated_code)]),
                 ctx = (ctx w)\<lparr>game_code := Some generated_code, game := Some g\<rparr>\<rparr>))"

definition tool_join_game :: "string \<Rightarrow> world \<Rightarrow> tool_result" where
  "tool_join_game code_arg w =
     (let normalized = upper (strip code_arg)
      in if \<not> validate_game_code normalized then fail InvalidJoinCode w
         else case get_game (db w) normalized of
                None \<Rightarrow> fail NoSuchGame w
              | Some g \<Rightarrow>
                  (Inr (), w\<lparr>ctx := (ctx w)\<lparr>game_code := Some normalized, game := Some g\<rparr>\<rparr>))"

definition tool_add_player :: "string \<Rightarrow> string \<Rightarrow> world \<Rightarrow> tool_result" where
  "tool_add_player name_arg uid w =
     (case ensure_game (ctx w) of
        None \<Rightarrow> fail NoActiveGame w
      | Some g \<Rightarrow>
          (let player_name = strip name_arg
           in if player_name = [] then fail NameMissing w
              else (case find_player_by_name (players g) player_name of
                      Some p \<Rightarrow> fail AlreadyRegistered w
                    | None \<Rightarrow>
                        (case add_player (db w) (code g) player_name uid of
                           Inl e \<Rightarrow> (Inl e, w)
                         | Inr st \<Rightarrow>
                             (Inr (),
                              reload_game
                                (w\<lparr>db := log_event st (code g)
                                      (build_event ''player_added'' [(''name'', player_name)])\<rparr>))))))"

definition tool_remove_player :: "string \<Rightarrow> world \<Rightarrow> tool_result" where
  "tool_remove_player name_arg w =
     (case ensure_game (ctx w) of
        None \<Rightarrow> fail NoActiveGame w
      | Some g \<Rightarrow>
          (let target_name = strip name_arg
           in if target_name = [] then fail RemoveNameMissing w
              else (case find_player_by_name (players g) target_name of
                      None \<Rightarrow> fail NotRegistered w
                    | Some player \<Rightarrow>
                        (Inr (),
                         reload_game
                           (w\<lparr>db := log_event (remove_player (db w) (code g) (id' player)) (code g)
                                 (build_event ''player_removed'' [(''name'', name player)])\<rparr>)))))"

definition tool_list_players :: "world \<Rightarrow> tool_result" where
  "tool_list_players w =
     (case ensure_game (ctx w) of
        None \<Rightarrow> fail NoActiveGame w
      | Some g \<Rightarrow> (Inr (), w))"

definition tool_assign_roles :: "shuffle \<Rightarrow> shuffle \<Rightarrow> world \<Rightarrow> tool_result" where
  "tool_assign_roles shuffle_ids shuffle_bag w =
     (case ensure_game (ctx w) of
        None \<Rightarrow> fail NoActiveGame w
      | Some g \<Rightarrow>
          if length (players g) < 5 then fail NeedFivePlayers w
          else (case assign_roles shuffle_ids shuffle_bag g of
                  (Inl (GameStateError e), g') \<Rightarrow> fail (Engine e) (set_game w g')
                | (Inl e, g') \<Rightarrow> (Inl e, set_game w g')
                | (Inr assignments, g') \<Rightarrow>
                    (Inr (),
                     finalize_state
                       (db_log (set_game w g') (code g')
                          (build_event ''roles_assigned''
                             [(''players'', str_nat (length assignments))]))
                       g')))"

definition tool_seer_peek :: "string \<Rightarrow> world \<Rightarrow> tool_result" where
  "tool_seer_peek target_name w =
     (case ensure_game (ctx w) of
        None \<Rightarrow> fail NoActiveGame w
      | Some g \<Rightarrow>
          if phase g \<noteq> ''night_seer'' then
            (if phase g = ''lobby'' then fail RolesNotAssigned w
             else if phase g = ''day'' then fail SeerOnlyAtNight w
             else fail NotSeerPhase w)
          else (case find_player_by_name (players g) target_name of
                  None \<Rightarrow> fail InvalidPlayer w
                | Some target \<Rightarrow>
                    (case seer_peek g (id' target) of
                       (Inl e, g') \<Rightarrow> fail (Engine e) (set_game w g')
                     | (Inr r, g') \<Rightarrow>
                         (Inr (),
                          finalize_state
                            (db_log (set_game w g') (code g')
                               (build_event ''seer_peek''
                                  [(''target'', name target), (''role'', r)]))
                            g'))))"

text \<open>
  The forced passage of a night phase whose role has no living member, as the tools
  write it: \<open>game.phase = ph; db.set_phase(game.code, ph); context.reload_game();
  game = context.game\<close>. The tool goes on with the reloaded game, which is \<open>None\<close> when
  the store has no document for the context's code.
\<close>

definition force_phase :: "world \<Rightarrow> Game \<Rightarrow> string \<Rightarrow> world" where
  "force_phase w g ph = reload_game (w\<lparr>db := set_phase (db w) (code g) ph\<rparr>)"

text \<open>\<open>tool_wolves_vote\<close> from line 212 on, with the game the phase check settled on.\<close>

definition wolves_vote_body :: "string \<Rightarrow> world \<Rightarrow> Game \<Rightarrow> tool_result" where
  "wolves_vote_body target_name w g =
     (case find_player_by_name (players g) target_name of
        None \<Rightarrow> fail TargetNotFound w
      | Some target \<Rightarrow>
          if status target \<noteq> ''alive'' then fail TargetAlreadyDead w
          else (case wolves_vote g (id' target) of
                  (Inl e, g') \<Rightarrow> fail (Engine e) (set_game w g')
                | (Inr r, g') \<Rightarrow>
                    (Inr (),
                     finalize_state
                       (db_log (set_game w g') (code g')
                          (build_event ''wolves_vote'' [(''target'', name target)]))
                       g')))"

definition tool_wolves_vote :: "string \<Rightarrow> world \<Rightarrow> tool_result" where
  "tool_wolves_vote target_name w =
     (case ensure_game (ctx w) of
        None \<Rightarrow> fail NoActiveGame w
      | Some g \<Rightarrow>
          if phase g = ''night_seer'' then
            (if list_ex (\<lambda>p. role p = ''seer'' \<and> status p = ''alive'') (players g)
             then fail SeerHasNotPlayed w
             else (let w1 = force_phase w g ''night_wolves''
                   in (case game (ctx w1) of
                         None \<Rightarrow> (Inl AttributeError, w1)
                       | Some g1 \<Rightarrow> wolves_vote_body target_name w1 g1)))
          else if phase g \<noteq> ''night_wolves'' then fail NotWolvesPhase w
          else wolves_vote_body target_name w g)"

text \<open>\<open>tool_witch_action\<close> from line 247 on, with the game the phase check settled on.\<close>

definition witch_action_body :: "bool \<Rightarrow> string option \<Rightarrow> world \<Rightarrow> Game \<Rightarrow> tool_result" where
  "witch_action_body heal poison_target w g =
     (case (if truthy poison_target
            then (case find_player_by_name (players g) (the_str poison_target) of
                    None \<Rightarrow> None
                  | Some target \<Rightarrow> Some (Some (id' target), Some (name target)))
            else Some (None, None)) of
        None \<Rightarrow> fail InvalidPlayer w
      | Some (poison_id, poisoned_name) \<Rightarrow>
          (let saved_name =
                 (if heal \<and> truthy (last_killed g)
                  then map_option name (get_player (players g) (the_str (last_killed g)))
                  else None)
           in case witch_action g heal poison_id of
               (Inl e, g') \<Rightarrow> fail (Engine e) (set_game w g')
             | (Inr killed_id, g') \<Rightarrow>
                (let w0 = set_game w g';
                     w1 = (if heal
                           then db_log w0 (code g')
                                  (build_event ''witch_heal''
                                     [(''saved'', if truthy saved_name
                                                  then the_str saved_name else ''aucun'')])
                           else w0);
                     w2 = (if truthy poisoned_name
                           then db_log w1 (code g')
                                  (build_event ''witch_poison''
                                     [(''target'', the_str poisoned_name)])
                           else w1);
                     w3 = (if truthy killed_id
                           then (case get_player (players g') (the_str killed_id) of
                                   None \<Rightarrow> w2
                                 | Some victim \<Rightarrow>
                                     db_log w2 (code g')
                                       (build_event ''player_killed'' [(''name'', name victim)]))
                           else w2)
                 in (Inr (), finalize_state w3 g'))))"

definition tool_witch_action :: "bool \<Rightarrow> string option \<Rightarrow> world \<Rightarrow> tool_result" where
  "tool_witch_action heal poison_target w =
     (case ensure_game (ctx w) of
        None \<Rightarrow> fail NoActiveGame w
      | Some g \<Rightarrow>
          if phase g = ''night_seer'' then fail SeerMustPlayFirst w
          else if phase g = ''night_wolves'' then
            (if list_ex (\<lambda>p. role p = ''wolf'' \<and> status p = ''alive'') (players g)
             then fail WolvesMustAttackFirst w
             else (let w1 = force_phase w g ''night_witch''
                   in (case game (ctx w1) of
                         None \<Rightarrow> (Inl AttributeError, w1)
                       | Some g1 \<Rightarrow> witch_action_body heal poison_target w1 g1)))
          else if phase g \<noteq> ''night_witch'' then fail NotWitchPhase w
          else witch_action_body heal poison_target w g)"

definition tool_advance_to_day :: "world \<Rightarrow> tool_result" where
  "tool_advance_to_day w =
     (case ensure_game (ctx w) of
        None \<Rightarrow> fail NoActiveGame w
      | Some g \<Rightarrow>
          if phase g \<noteq> ''night_witch'' then fail NightNotOver w
          else (case witch_action g False None of
                 (Inl e, g') \<Rightarrow> fail (Engine e) (set_game w g')
               | (Inr killed_id, g') \<Rightarrow>
                  (let w0 = set_game w g';
                       w1 = (if truthy killed_id
                             then (case get_player (players g') (the_str killed_id) of
                                     None \<Rightarrow> w0
                                   | Some victim \<Rightarrow>
                                       db_log w0 (code g')
                                         (build_event ''player_killed'' [(''name'', name victim)]))
                             else w0);
                       w2 = db_log w1 (code g') (build_event ''night_finished'' [])
                   in (Inr (), finalize_state w2 g'))))"

definition tool_run_night_sequence :: "world \<Rightarrow> tool_result" where
  "tool_run_night_sequence w =
     (case ensure_game (ctx w) of
        None \<Rightarrow> fail NoActiveGame w
      | Some g \<Rightarrow>
          if phase g \<notin> set [''night_seer'', ''night_wolves'', ''night_witch'']
          then fail NotNightPhase w
          else
            (let w1 = (if phase g = ''night_seer''
                          \<and> \<not> list_ex (\<lambda>p. role p = ''seer'' \<and> status p = ''alive'') (players g)
                       then force_phase w g ''night_wolves'' else w)
             in (case game (ctx w1) of
                   None \<Rightarrow> (Inl AttributeError, w1)
                 | Some g1 \<Rightarrow>
                     (let w2 = (if phase g1 = ''night_wolves''
                                   \<and> \<not> list_ex (\<lambda>p. role p = ''wolf'' \<and> status p = ''alive'')
                                          (players g1)
                                then force_phase w1 g1 ''night_witch'' else w1)
                      in (case game (ctx w2) of
                            None \<Rightarrow> (Inl AttributeError, w2)
                          | Some g2 \<Rightarrow> (Inr (), w2))))))"

definition tool_start_next_night :: "world \<Rightarrow> tool_result" where
  "tool_start_next_night w =
     (case ensure_game (ctx w) of
        None \<Rightarrow> fail NoActiveGame w
      | Some g \<Rightarrow>
          (case start_next_night g of
             (Inl e, g') \<Rightarrow> fail (Engine e) (set_game w g')
           | (Inr u, g') \<Rightarrow>
               (Inr (),
                finalize_state
                  (db_log (set_game w g') (code g') (build_event ''night_started'' []))
                  g')))"

definition tool_game_status :: "world \<Rightarrow> tool_result" where
  "tool_game_status w =
     (case ensure_game (ctx w) of
        None \<Rightarrow> fail NoActiveGame w
      | Some g \<Rightarrow>
          (let w1 = reload_game w
           in (case game (ctx w1) of
                 None \<Rightarrow> (Inl AttributeError, w1)
               | Some g1 \<Rightarrow> (Inr (), w1))))"

text \<open>
  \<open>TOOL_FUNCTIONS\<close>: a command is the name of a tool with its arguments. Some
  arguments stand for what the tool draws from outside the program: the code that
  \<open>generate_game_code\<close> returns (used when no code is given), the id that \<open>uuid7\<close>
  returns, and the two shuffles of the seeded or unseeded generator (in place of the seed).
\<close>

datatype command =
    CreateGame "string option" string
  | JoinGame string
  | AddPlayer string string
  | RemovePlayer string
  | ListPlayers
  | AssignRoles shuffle shuffle
  | SeerPeek string
  | WolvesVote string
  | WitchAction bool "string option"
  | RunNightSequence
  | AdvanceToDay
  | StartNextNight
  | GameStatus

fun run_tool :: "command \<Rightarrow> world \<Rightarrow> tool_result" where
  "run_tool (CreateGame code_arg generated) w = tool_create_game code_arg generated w"
| "run_tool (JoinGame code_arg) w = tool_join_game code_arg w"
| "run_tool (AddPlayer name_arg uid) w = tool_add_player name_arg uid w"
| "run_tool (RemovePlayer name_arg) w = tool_remove_player name_arg w"
| "run_tool ListPlayers w = tool_list_players w"
| "run_tool (AssignRoles shuffle_ids shuffle_bag) w = tool_assign_roles shuffle_ids shuffle_bag w"
| "run_tool (SeerPeek target_name) w = tool_seer_peek target_name w"
| "run_tool (WolvesVote target_name) w = tool_wolves_vote target_name w"
| "run_tool (WitchAction heal poison_target) w = tool_witch_action heal poison_target w"
| "run_tool RunNightSequence w = tool_run_night_sequence w"
| "run_tool AdvanceToDay w = tool_advance_to_day w"
| "run_tool StartNextNight w = tool_start_next_night w"
| "run_tool GameStatus w = tool_game_status w"

text \<open>
  \<open>_wrap_tool\<close> (langchain\_agent.py): an \<open>AgentToolError\<close> is caught, its text appended
  to \<open>context.errors\<close> and returned as the reply; any other exception leaves the tool.
\<close>

definition wrap_tool :: "command \<Rightarrow> world \<Rightarrow> tool_result" where
  "wrap_tool cmd w =
     (case run_tool cmd w of
        (Inl (AgentToolError e), w') \<Rightarrow>
          (Inl (AgentToolError e), w'\<lparr>ctx := (ctx w')\<lparr>errors := errors (ctx w') @ [e]\<rparr>\<rparr>)
      | r \<Rightarrow> r)"





section \<open>Histories of the dispatcher\<close>

text \<open>
  The server holds the store and the contexts of the requests begun so far, in the order
  they began: \<open>process_message\<close> makes a new context for each request, loads it once,
  and every tool of the request works on that context. Requests of several callers may
  be open together, so a context can be older than the store.
\<close>

record server =
  games :: store
  requests :: "AgentContext list"


definition put_world :: "server \<Rightarrow> nat \<Rightarrow> world \<Rightarrow> server" where
  "put_world sv i w = \<lparr>games = db w, requests = (requests sv)[i := ctx w]\<rparr>"











text \<open>
  What holds of every world of a serial history from the empty store. \<open>status_ok\<close>: every
  status is one of the two, and a game in \<open>lobby\<close> has no dead player. \<open>game_ok\<close>:
  moreover the ids of the players are distinct and were handed out. \<open>world_ok\<close>: every
  document of the store is filed under its code and is such a game; so is the context's
  game, whose code is the context's, and each of its living players is alive in the
  store's document too.
\<close>

definition status_ok :: "Game \<Rightarrow> bool" where
  "status_ok g =
     (list_all (\<lambda>p. status p = ''alive'' \<or> status p = ''dead'') (players g)
      \<and> (phase g = ''lobby'' \<longrightarrow> list_all (\<lambda>p. status p = ''alive'') (players g)))"

definition game_ok :: "string list \<Rightarrow> Game \<Rightarrow> bool" where
  "game_ok used g =
     (distinct (map id' (players g)) \<and> set (map id' (players g)) \<subseteq> set used \<and> status_ok g)"

definition alive_in :: "Game \<Rightarrow> string \<Rightarrow> bool" where
  "alive_in g i = list_ex (\<lambda>p. id' p = i \<and> status p = ''alive'') (players g)"



text \<open>No player with id \<open>i\<close> is alive in the document of code \<open>c\<close>.\<close>

definition buried :: "string \<Rightarrow> string \<Rightarrow> world \<Rightarrow> bool" where
  "buried i c w = (\<forall>d. db w c = Some d \<longrightarrow> \<not> alive_in d i)"



section \<open>Example sessions\<close>

text \<open>
  Five players, one wolf, one seer, three villagers, all alive: the roster the quota
  gives for five players. \<open>demo_game\<close> puts it in a phase, with a pending kill and the
  two potion flags.
\<close>

definition demo_players :: "Player list" where
  "demo_players =
     [\<lparr>id' = ''p1'', name = ''Alice'', role = ''wolf'', status = ''alive''\<rparr>,
      \<lparr>id' = ''p2'', name = ''Bob'', role = ''seer'', status = ''alive''\<rparr>,
      \<lparr>id' = ''p3'', name = ''Carol'', role = ''villager'', status = ''alive''\<rparr>,
      \<lparr>id' = ''p4'', name = ''Dave'', role = ''villager'', status = ''alive''\<rparr>,
      \<lparr>id' = ''p5'', name = ''Eve'', role = ''villager'', status = ''alive''\<rparr>]"

definition demo_game :: "string \<Rightarrow> string option \<Rightarrow> bool \<Rightarrow> bool \<Rightarrow> Game" where
  "demo_game ph lk hu pu =
     \<lparr>code = ''ABCDEF'', phase = ph, players = demo_players, history = [],
      last_killed = lk, potions = \<lparr>heal_used = hu, poison_used = pu\<rparr>, chat_history = []\<rparr>"

text \<open>
  A world with one stored session, bound to the context as a request for its code finds
  it.
\<close>

definition demo_world :: "Game \<Rightarrow> world" where
  "demo_world g =
     \<lparr>db = [code g \<mapsto> g], ctx = \<lparr>game_code = Some (code g), game = Some g, errors = []\<rparr>\<rparr>"









section \<open>Role quotas: properties\<close>

lemma role_distribution_ge5:
  "5 \<le> n \<Longrightarrow> role_distribution n =
     Inr [(''seer'', 1), (''witch'', if 6 \<le> n then 1 else 0), (''wolf'', wolf_count n),
          (''villager'', n - 1 - (if 6 \<le> n then 1 else 0) - wolf_count n)]"
  by (simp add: role_distribution_def wolf_count_def Let_def)

text \<open>
  Claim C5. From five players on (so for 5 to 20 in particular) \<open>role_distribution\<close>
  returns the four roles seer, witch, wolf, villager with counts that add up to the
  number of players: one seer; one witch from six players on and none at five; one wolf
  up to six players, two from seven to nine, three from ten on; everyone else villager.
  Below five players it raises the "at least 5 players" error.
\<close>

theorem role_distribution_spec:
  "(5 \<le> n \<longrightarrow>
      (\<exists>d. role_distribution n = Inr d
         \<and> sum_list (map snd d) = n
         \<and> map fst d = [''seer'', ''witch'', ''wolf'', ''villager'']
         \<and> map_of d ''wolf'' = Some (if n \<le> 6 then 1 else if n \<le> 9 then 2 else 3)
         \<and> map_of d ''witch'' = Some (if 6 \<le> n then 1 else 0)
         \<and> map_of d ''seer'' = Some 1
         \<and> map_of d ''villager'' =
             Some (n - (1 + (if 6 \<le> n then 1 else 0)
                          + (if n \<le> 6 then 1 else if n \<le> 9 then 2 else 3)))))
   \<and> (n < 5 \<longrightarrow> role_distribution n = Inl InsufficientPlayers)"
proof (intro conjI impI)
  assume "5 \<le> n"
  from role_distribution_ge5[OF this]
  show "\<exists>d. role_distribution n = Inr d
         \<and> sum_list (map snd d) = n
         \<and> map fst d = [''seer'', ''witch'', ''wolf'', ''villager'']
         \<and> map_of d ''wolf'' = Some (if n \<le> 6 then 1 else if n \<le> 9 then 2 else 3)
         \<and> map_of d ''witch'' = Some (if 6 \<le> n then 1 else 0)
         \<and> map_of d ''seer'' = Some 1
         \<and> map_of d ''villager'' =
             Some (n - (1 + (if 6 \<le> n then 1 else 0)
                          + (if n \<le> 6 then 1 else if n \<le> 9 then 2 else 3)))"
    by (simp add: wolf_count_def)
next
  assume "n < 5"
  then show "role_distribution n = Inl InsufficientPlayers"
    by (simp add: role_distribution_def)
qed

theorem role_distribution_spec_witness:
  "(5::int) \<le> 7
   \<and> (\<exists>d. role_distribution 7 = Inr d \<and> sum_list (map snd d) = 7
          \<and> map_of d ''wolf'' = Some 2 \<and> map_of d ''witch'' = Some 1
          \<and> map_of d ''seer'' = Some 1 \<and> map_of d ''villager'' = Some 3)
   \<and> (4::int) < 5 \<and> role_distribution 4 = Inl InsufficientPlayers"
  using role_distribution_spec[of 7] role_distribution_spec[of 4] by auto

text \<open>
  Claim C9. From five players on, the villager count that \<open>role_distribution\<close> computes
  (the players left after the seer, the witch and the wolves) is not negative, so the
  second error of the function is never raised, for any input; the function raises
  exactly when there are fewer than five players.
\<close>

theorem villagers_never_negative:
  "(5 \<le> n \<longrightarrow> 0 \<le> n - (1 + (if 6 \<le> n then 1 else 0) + wolf_count n))
   \<and> role_distribution n \<noteq> Inl DistributionImpossible
   \<and> ((\<exists>e. role_distribution n = Inl e) \<longleftrightarrow> n < 5)"
  by (auto simp: role_distribution_def wolf_count_def Let_def)

theorem villagers_never_negative_witness:
  "(5::int) \<le> 5 \<and> (0::int) \<le> 5 - (1 + 0 + wolf_count 5)
   \<and> role_distribution 5 \<noteq> Inl DistributionImpossible
   \<and> \<not> (\<exists>e. role_distribution 5 = Inl e)"
  using villagers_never_negative[of 5] by simp

section \<open>The state machine: properties\<close>

lemma get_player_set_status:
  "get_player (set_status ps k s) j =
     (if j = k then map_option (\<lambda>p. p\<lparr>status := s\<rparr>) (get_player ps k) else get_player ps j)"
  by (induction ps) auto

lemma set_status_idem: "set_status (set_status ps k s) k s = set_status ps k s"
  by (induction ps) auto




text \<open>
  Claim C3. \<open>is_game_over\<close> answers (over, village) exactly when no living player is a
  wolf; (over, wolves) exactly when some living player is a wolf and the living wolves
  are at least as many as the living players of the other roles, a tie included; and
  (not over, no winner) exactly when some living player is a wolf and the living wolves
  are fewer. The function takes a game in any phase and returns only this pair.
\<close>

theorem is_game_over_spec:
  "(is_game_over g = (True, Some ''village'')
      \<longleftrightarrow> \<not> (\<exists>p \<in> set (players g). status p = ''alive'' \<and> role p = ''wolf''))
   \<and> (is_game_over g = (True, Some ''wolves'')
      \<longleftrightarrow> (\<exists>p \<in> set (players g). status p = ''alive'' \<and> role p = ''wolf'')
          \<and> length (filter (\<lambda>p. status p = ''alive'' \<and> role p = ''wolf'') (players g))
            \<ge> length (filter (\<lambda>p. status p = ''alive'' \<and> role p \<noteq> ''wolf'') (players g)))
   \<and> (is_game_over g = (False, None)
      \<longleftrightarrow> (\<exists>p \<in> set (players g). status p = ''alive'' \<and> role p = ''wolf'')
          \<and> length (filter (\<lambda>p. status p = ''alive'' \<and> role p = ''wolf'') (players g))
            < length (filter (\<lambda>p. status p = ''alive'' \<and> role p \<noteq> ''wolf'') (players g)))"
  by (auto simp: is_game_over_def alive_players_def Let_def filter_empty_conv)

text \<open>
  Claim C7. In phase \<open>night_seer\<close>, for a target id that \<open>_get_player\<close> finds and whose
  player is alive, \<open>seer_peek\<close> returns that player's role and leaves the game as it was
  except for the phase, which is \<open>night_wolves\<close>: the players (roles and statuses), the
  pending kill, the potions, the code, the history and the chat history are unchanged.
\<close>

theorem seer_peek_frame:
  assumes "phase g = ''night_seer''"
      and "get_player (players g) t = Some target" and "status target = ''alive''"
  shows "seer_peek g t = (Inr (role target), g\<lparr>phase := ''night_wolves''\<rparr>)
       \<and> phase (snd (seer_peek g t)) = ''night_wolves''
       \<and> players (snd (seer_peek g t)) = players g
       \<and> last_killed (snd (seer_peek g t)) = last_killed g
       \<and> potions (snd (seer_peek g t)) = potions g
       \<and> code (snd (seer_peek g t)) = code g
       \<and> history (snd (seer_peek g t)) = history g
       \<and> chat_history (snd (seer_peek g t)) = chat_history g"
  using assms by (simp add: seer_peek_def)

theorem seer_peek_frame_witness:
  "phase (demo_game ''night_seer'' None False False) = ''night_seer''
   \<and> get_player (players (demo_game ''night_seer'' None False False)) ''p3''
       = Some \<lparr>id' = ''p3'', name = ''Carol'', role = ''villager'', status = ''alive''\<rparr>
   \<and> seer_peek (demo_game ''night_seer'' None False False) ''p3''
       = (Inr ''villager'', demo_game ''night_wolves'' None False False)"
  using seer_peek_frame[of "demo_game ''night_seer'' None False False" "''p3''"
          "\<lparr>id' = ''p3'', name = ''Carol'', role = ''villager'', status = ''alive''\<rparr>"]
  by (simp add: demo_game_def demo_players_def)




text \<open>
  Claim C6. In phase \<open>night_witch\<close>, \<open>witch_action\<close> with \<open>heal = True\<close> raises the
  "heal potion already used" error when the heal potion is used; otherwise raises
  "nobody to save" when there is no pending kill (\<open>last_killed\<close> is \<open>None\<close> or empty);
  otherwise, whatever the poison argument and however the call ends, the game it leaves
  has no pending kill and the heal potion used, and its players are the players as they
  were, or as they were with the poison target marked dead: the wolves' victim is not
  marked dead for the wolves' attack. With no poison target the call returns no death and
  the players are unchanged.
\<close>

theorem witch_heal_spec:
  assumes "phase g = ''night_witch''"
  shows "(heal_used (potions g) \<longrightarrow> witch_action g True poison = (Inl HealAlreadyUsed, g))
       \<and> (\<not> heal_used (potions g) \<and> \<not> truthy (last_killed g) \<longrightarrow>
            witch_action g True poison = (Inl NoPendingVictim, g))
       \<and> (\<not> heal_used (potions g) \<and> truthy (last_killed g) \<longrightarrow>
            (\<forall>res g'. witch_action g True poison = (res, g') \<longrightarrow>
               last_killed g' = None \<and> heal_used (potions g')
               \<and> (players g' = players g
                   \<or> (\<exists>t. poison = Some t \<and> players g' = set_status (players g) t ''dead'')))
            \<and> witch_action g True None =
                (Inr None,
                 g\<lparr>last_killed := None, potions := (potions g)\<lparr>heal_used := True\<rparr>,
                   phase := ''day''\<rparr>))"
  using assms
  by (auto simp: witch_action_def witch_poison_def witch_finish_def mark_dead_def
                 get_player_set_status set_status_idem
           split: option.splits if_splits)

theorem witch_heal_spec_witness:
  "phase (demo_game ''night_witch'' (Some ''p2'') False False) = ''night_witch''
   \<and> witch_action (demo_game ''night_witch'' (Some ''p2'') True False) True None
       = (Inl HealAlreadyUsed, demo_game ''night_witch'' (Some ''p2'') True False)
   \<and> witch_action (demo_game ''night_witch'' None False False) True None
       = (Inl NoPendingVictim, demo_game ''night_witch'' None False False)
   \<and> truthy (last_killed (demo_game ''night_witch'' (Some ''p2'') False False))
   \<and> witch_action (demo_game ''night_witch'' (Some ''p2'') False False) True None
       = (Inr None, demo_game ''day'' None True False)"
  using witch_heal_spec[of "demo_game ''night_witch'' (Some ''p2'') True False" None]
        witch_heal_spec[of "demo_game ''night_witch'' None False False" None]
        witch_heal_spec[of "demo_game ''night_witch'' (Some ''p2'') False False" None]
  by (simp add: demo_game_def)

text \<open>
  Claim C10. In phase \<open>night_witch\<close>, with both potions unused and a pending kill that
  names a living player of the game, \<open>witch_action\<close> with \<open>heal = True\<close> and that same
  player as poison target returns (it raises no "already targeted" error, since the heal
  has emptied the variable the check compares with): it returns the player's id, both
  potions are used, the pending kill is cleared, the phase is \<open>day\<close>, and the player is
  dead.
\<close>

theorem heal_then_poison_same_target:
  assumes "phase g = ''night_witch''"
      and "last_killed g = Some k" and "k \<noteq> []"
      and "\<not> heal_used (potions g)" and "\<not> poison_used (potions g)"
      and "get_player (players g) k = Some v" and "status v = ''alive''"
  shows "witch_action g True (Some k) =
           (Inr (Some k),
            g\<lparr>players := set_status (players g) k ''dead'',
              potions := (potions g)\<lparr>heal_used := True, poison_used := True\<rparr>,
              last_killed := None, phase := ''day''\<rparr>)
         \<and> (\<exists>v'. get_player (players (snd (witch_action g True (Some k)))) k = Some v'
                \<and> status v' = ''dead'')"
  using assms
  by (simp add: witch_action_def witch_poison_def witch_finish_def mark_dead_def
                 get_player_set_status set_status_idem)

theorem heal_then_poison_same_target_witness:
  "phase (demo_game ''night_witch'' (Some ''p2'') False False) = ''night_witch''
   \<and> get_player (players (demo_game ''night_witch'' (Some ''p2'') False False)) ''p2''
       = Some \<lparr>id' = ''p2'', name = ''Bob'', role = ''seer'', status = ''alive''\<rparr>
   \<and> witch_action (demo_game ''night_witch'' (Some ''p2'') False False) True (Some ''p2'')
       = (Inr (Some ''p2''),
          (demo_game ''day'' None True True)\<lparr>players := set_status demo_players ''p2'' ''dead''\<rparr>)"
  using heal_then_poison_same_target
          [of "demo_game ''night_witch'' (Some ''p2'') False False" "''p2''"
              "\<lparr>id' = ''p2'', name = ''Bob'', role = ''seer'', status = ''alive''\<rparr>"]
  by (simp add: demo_game_def demo_players_def)

text \<open>
  Claim C1. The claim fails on the code: a call that heals and then fails a poison check
  raises after the heal block has already written. Here the wolves' victim is \<open>p2\<close>, the
  heal potion is unused and the poison potion is used; healing and poisoning \<open>p3\<close> raises
  the "poison potion already used" error and leaves the game with the pending kill
  cleared and the heal potion used. Through the dispatcher the same call returns the error
  and writes nothing to the store, but the context's game keeps what the engine wrote, and
  the next command of the request that succeeds (here the end of the night) stores it: the
  heal is spent and the victim is alive in the morning.
\<close>

theorem witch_action_failure_mutates:
  "witch_action (demo_game ''night_witch'' (Some ''p2'') False True) True (Some ''p3'')
     = (Inl PoisonAlreadyUsed, demo_game ''night_witch'' None True True)
   \<and> demo_game ''night_witch'' None True True \<noteq> demo_game ''night_witch'' (Some ''p2'') False True
   \<and> fst (wrap_tool (WitchAction True (Some ''Carol''))
             (demo_world (demo_game ''night_witch'' (Some ''p2'') False True)))
       = Inl (AgentToolError (Engine PoisonAlreadyUsed))
   \<and> game (ctx (snd (wrap_tool (WitchAction True (Some ''Carol''))
             (demo_world (demo_game ''night_witch'' (Some ''p2'') False True)))))
       = Some (demo_game ''night_witch'' None True True)
   \<and> db (snd (wrap_tool (WitchAction True (Some ''Carol''))
             (demo_world (demo_game ''night_witch'' (Some ''p2'') False True)))) ''ABCDEF''
       = Some (demo_game ''night_witch'' (Some ''p2'') False True)
   \<and> db (snd (wrap_tool AdvanceToDay
         (snd (wrap_tool (WitchAction True (Some ''Carol''))
             (demo_world (demo_game ''night_witch'' (Some ''p2'') False True)))))) ''ABCDEF''
       = Some (demo_game ''day'' None True True)"
proof -
  have "witch_action (demo_game ''night_witch'' (Some ''p2'') False True) True (Some ''p3'')
     = (Inl PoisonAlreadyUsed, demo_game ''night_witch'' None True True)
   \<and> demo_game ''night_witch'' None True True \<noteq> demo_game ''night_witch'' (Some ''p2'') False True"
    by (simp add: demo_game_def demo_players_def witch_action_def witch_poison_def)
  moreover have "fst (wrap_tool (WitchAction True (Some ''Carol''))
             (demo_world (demo_game ''night_witch'' (Some ''p2'') False True)))
       = Inl (AgentToolError (Engine PoisonAlreadyUsed))"
    by code_simp
  moreover have "game (ctx (snd (wrap_tool (WitchAction True (Some ''Carol''))
             (demo_world (demo_game ''night_witch'' (Some ''p2'') False True)))))
       = Some (demo_game ''night_witch'' None True True)"
    by code_simp
  moreover have "db (snd (wrap_tool (WitchAction True (Some ''Carol''))
             (demo_world (demo_game ''night_witch'' (Some ''p2'') False True)))) ''ABCDEF''
       = Some (demo_game ''night_witch'' (Some ''p2'') False True)"
    by code_simp
  moreover have "db (snd (wrap_tool AdvanceToDay
         (snd (wrap_tool (WitchAction True (Some ''Carol''))
             (demo_world (demo_game ''night_witch'' (Some ''p2'') False True)))))) ''ABCDEF''
       = Some (demo_game ''day'' None True True)"
    by code_simp
  ultimately show ?thesis by blast
qed

section \<open>Histories: what every reachable world satisfies\<close>

subsection \<open>Engine steps\<close>
























subsection \<open>Good games and stores\<close>





lemma game_ok_history [simp]: "game_ok used (g\<lparr>history := h\<rparr>) = game_ok used g"
  by (simp add: game_ok_def status_ok_def)

lemma alive_in_history [simp]: "alive_in (g\<lparr>history := h\<rparr>) = alive_in g"
  by (simp add: alive_in_def fun_eq_iff)

lemma alive_in_phase [simp]: "alive_in (g\<lparr>phase := ph\<rparr>) = alive_in g"
  by (simp add: alive_in_def fun_eq_iff)












subsection \<open>Buried ids\<close>








lemma buried_same_db: "db w' = db w \<Longrightarrow> buried i c w' = buried i c w"
  by (simp add: buried_def)

subsection \<open>Good worlds\<close>





lemma db_reload [simp]: "db (reload_game w) = db w"
  by (simp add: reload_game_def)

lemma db_set_game [simp]: "db (set_game w g) = db w"
  by (simp add: set_game_def)

lemma game_set_game [simp]: "game (ctx (set_game w g)) = Some g"
  by (simp add: set_game_def)

lemma game_db_log [simp]: "game (ctx (db_log w c ev)) = game (ctx w)"
  by (simp add: db_log_def)











subsection \<open>Every tool is safe\<close>






























lemma game_ok_chat [simp]: "game_ok used (g\<lparr>chat_history := h\<rparr>) = game_ok used g"
  by (simp add: game_ok_def status_ok_def)

lemma alive_in_chat [simp]: "alive_in (g\<lparr>chat_history := h\<rparr>) = alive_in g"
  by (simp add: alive_in_def fun_eq_iff)












lemma length_put [simp]: "length (requests (put_world sv i w)) = length (requests sv)"
  by (simp add: put_world_def)








section \<open>The forced passage of a night phase\<close>





end
